theory Spec2Isabelle
  imports Main
begin

section \<open>The document-authoring library, as far as the generator uses it\<close>

text \<open>
  The script \<^verbatim>\<open>examples/create_test_pair.py\<close> drives an external library through six
  operations: create a deck, append a slide of a given layout, set the title text, fill the
  content placeholder (set its text, append paragraphs), set the speaker notes, and save
  the deck. The library's objects are mutable Python objects; here a deck is a value, every
  operation returns the updated deck, and a reference to a slide or to a paragraph is its
  position in the deck or in the body.

  A slide holds what the script can put on it: the layout it was created from (the index
  into \<^verbatim>\<open>prs.slide_layouts\<close>: 0 is the title slide, 1 is title and content), the text of
  the title shape, the paragraphs of placeholder 1 (the subtitle of a title slide, the
  content region otherwise) and the text of the notes slide, which exists only once it has
  been asked for.
\<close>

record slide =
  layout :: nat
  title :: string
  body :: "string list"
  notes_text :: "string option"

record presentation =
  core_title :: string
  core_author :: string
  slides :: "slide list"

text \<open>\<^verbatim>\<open>Presentation()\<close>: a deck without slides. Its two metadata fields are assigned
  by the script before anything reads them.\<close>

definition Presentation :: presentation where
  "Presentation = \<lparr>core_title = [], core_author = [], slides = []\<rparr>"

text \<open>An assignment through a slide reference changes that slide of the deck and nothing
  else. A reference that points at no slide cannot arise in the script; the model leaves
  the deck as it is there.\<close>

definition update_slide :: "nat \<Rightarrow> (slide \<Rightarrow> slide) \<Rightarrow> presentation \<Rightarrow> presentation" where
  "update_slide i f prs =
     (if i < length (slides prs)
      then prs\<lparr>slides := (slides prs)[i := f (slides prs ! i)]\<rparr>
      else prs)"

text \<open>\<^verbatim>\<open>prs.slides.add_slide(prs.slide_layouts[k])\<close> appends an empty slide and returns
  the reference to it.\<close>

definition add_slide :: "nat \<Rightarrow> presentation \<Rightarrow> presentation \<times> nat" where
  "add_slide k prs =
     (prs\<lparr>slides := slides prs @ [\<lparr>layout = k, title = [], body = [], notes_text = None\<rparr>]\<rparr>,
      length (slides prs))"

text \<open>\<^verbatim>\<open>slide.shapes.title.text = s\<close>\<close>

definition set_title_text :: "nat \<Rightarrow> string \<Rightarrow> presentation \<Rightarrow> presentation" where
  "set_title_text i s prs = update_slide i (\<lambda>sl. sl\<lparr>title := s\<rparr>) prs"

text \<open>\<^verbatim>\<open>slide.placeholders[1].text = s\<close> and \<^verbatim>\<open>slide.placeholders[1].text_frame.text = s\<close>:
  the text replaces whatever the placeholder held. No text the script assigns contains a
  line break, so the placeholder then holds the one paragraph \<open>s\<close>.\<close>

definition set_placeholder_text :: "nat \<Rightarrow> string \<Rightarrow> presentation \<Rightarrow> presentation" where
  "set_placeholder_text i s prs = update_slide i (\<lambda>sl. sl\<lparr>body := [s]\<rparr>) prs"

text \<open>\<^verbatim>\<open>p = tf.add_paragraph()\<close> appends an empty paragraph to the body of the slide and
  returns the reference to it; \<^verbatim>\<open>p.text = s\<close> sets the text of that paragraph.\<close>

definition add_paragraph :: "nat \<Rightarrow> presentation \<Rightarrow> presentation \<times> nat" where
  "add_paragraph i prs =
     (update_slide i (\<lambda>sl. sl\<lparr>body := body sl @ [[]]\<rparr>) prs,
      if i < length (slides prs) then length (body (slides prs ! i)) else 0)"

definition set_paragraph_text :: "nat \<Rightarrow> nat \<Rightarrow> string \<Rightarrow> presentation \<Rightarrow> presentation" where
  "set_paragraph_text i j s prs =
     update_slide i (\<lambda>sl. if j < length (body sl) then sl\<lparr>body := (body sl)[j := s]\<rparr> else sl) prs"

text \<open>\<^verbatim>\<open>slide.notes_slide.notes_text_frame.text = s\<close>: the notes slide is created when it
  is first asked for, and its text is set.\<close>

definition set_notes_text :: "nat \<Rightarrow> string \<Rightarrow> presentation \<Rightarrow> presentation" where
  "set_notes_text i s prs = update_slide i (\<lambda>sl. sl\<lparr>notes_text := Some s\<rparr>) prs"

subsection \<open>The world outside the process\<close>

text \<open>
  The script touches the outside twice: it saves a deck under a path and it prints a line.
  The world is the file system (the deck stored under each path), the set of paths at
  which a write is refused, the log of the paths written so far, in order, and the lines
  printed so far. A refused write raises; nothing in the script catches it, so the
  exception ends the run in the world reached by then.
\<close>

record world =
  files :: "string \<rightharpoonup> presentation"
  readonly :: "string set"
  saved :: "string list"
  stdout :: "string list"

datatype error = PermissionError string

type_synonym outcome = "(error \<times> world) + world"

text \<open>\<^verbatim>\<open>prs.save(path)\<close> overwrites what is stored under the path.\<close>

definition save :: "presentation \<Rightarrow> string \<Rightarrow> world \<Rightarrow> outcome" where
  "save prs path w =
     (if path \<in> readonly w then Inl (PermissionError path, w)
      else Inr (w\<lparr>files := (files w)(path \<mapsto> prs), saved := saved w @ [path]\<rparr>))"

definition print :: "string \<Rightarrow> world \<Rightarrow> world" where
  "print s w = w\<lparr>stdout := stdout w @ [s]\<rparr>"

text \<open>The world an outcome ends in, raised or returned.\<close>

definition final :: "outcome \<Rightarrow> world" where
  "final r = (case r of Inl (e, w) \<Rightarrow> w | Inr w \<Rightarrow> w)"

section \<open>The generator\<close>

text \<open>\<^verbatim>\<open>create_old\<close>, lines 15 to 72: the deck as it stands when it is saved.\<close>

definition create_old_prs :: presentation where
  "create_old_prs =
     (let prs = Presentation;
          prs = prs\<lparr>core_title := ''Research Study''\<rparr>;
          prs = prs\<lparr>core_author := ''Dr. Smith''\<rparr>;

          (prs, slide) = add_slide 0 prs;
          prs = set_title_text slide ''Neuroimaging Study of Brain Connectivity'' prs;
          prs = set_placeholder_text slide ''Dr. Smith, Department of Neuroscience'' prs;
          prs = set_notes_text slide
                  ''Welcome everyone. Today I'll present our findings on brain connectivity.'' prs;

          (prs, slide) = add_slide 1 prs;
          prs = set_title_text slide ''Methods'' prs;
          prs = set_placeholder_text slide ''Participants: 50 healthy adults (25M/25F)'' prs;
          (prs, p) = add_paragraph slide prs;
          prs = set_paragraph_text slide p ''MRI Protocol: 3T Siemens scanner'' prs;
          (prs, p) = add_paragraph slide prs;
          prs = set_paragraph_text slide p ''Analysis: FSL and FreeSurfer pipelines'' prs;
          prs = set_notes_text slide ''Methods slide - explain recruitment criteria'' prs;

          (prs, slide) = add_slide 1 prs;
          prs = set_title_text slide ''Results'' prs;
          prs = set_placeholder_text slide
                  ''Significant connectivity differences in DMN (p<0.01)'' prs;
          (prs, p) = add_paragraph slide prs;
          prs = set_paragraph_text slide p ''Correlation with cognitive scores: r=0.45'' prs;
          (prs, p) = add_paragraph slide prs;
          prs = set_paragraph_text slide p ''No significant age effects observed'' prs;
          prs = set_notes_text slide ''Key finding: DMN connectivity is altered'' prs;

          (prs, slide) = add_slide 1 prs;
          prs = set_title_text slide ''Discussion'' prs;
          prs = set_placeholder_text slide ''Findings consistent with prior literature'' prs;
          (prs, p) = add_paragraph slide prs;
          prs = set_paragraph_text slide p
                  ''Novel contribution: whole-brain analysis approach'' prs;
          (prs, p) = add_paragraph slide prs;
          prs = set_paragraph_text slide p ''Clinical implications for early diagnosis'' prs;
          prs = set_notes_text slide ''Discuss limitations and future directions'' prs
      in prs)"

text \<open>\<^verbatim>\<open>create_old\<close>, whole: build the deck, save it (line 74), report (line 75).\<close>

definition create_old :: "world \<Rightarrow> outcome" where
  "create_old w =
     (case save create_old_prs ''test_old.pptx'' w of
        Inl x \<Rightarrow> Inl x
      | Inr w1 \<Rightarrow> Inr (print ''Created test_old.pptx (4 slides)'' w1))"

text \<open>\<^verbatim>\<open>create_new\<close>, lines 80 to 139.\<close>

definition create_new_prs :: presentation where
  "create_new_prs =
     (let prs = Presentation;
          prs = prs\<lparr>core_title := ''Research Study - Revised''\<rparr>;
          prs = prs\<lparr>core_author := ''Dr. Smith''\<rparr>;

          (prs, slide) = add_slide 0 prs;
          prs = set_title_text slide ''Neuroimaging Study of Brain Connectivity'' prs;
          prs = set_placeholder_text slide ''Dr. Smith, Department of Neuroscience'' prs;
          prs = set_notes_text slide
                  ''Welcome. Today I'll present our UPDATED findings on brain connectivity patterns.''
                  prs;

          (prs, slide) = add_slide 1 prs;
          prs = set_title_text slide ''Methods'' prs;
          prs = set_placeholder_text slide ''Participants: 75 healthy adults (38M/37F)'' prs;
          (prs, p) = add_paragraph slide prs;
          prs = set_paragraph_text slide p ''MRI Protocol: 3T Siemens Prisma scanner'' prs;
          (prs, p) = add_paragraph slide prs;
          prs = set_paragraph_text slide p ''Analysis: FSL, FreeSurfer, and CONN toolbox'' prs;
          prs = set_notes_text slide ''Methods slide - explain recruitment criteria'' prs;

          (prs, slide) = add_slide 1 prs;
          prs = set_title_text slide ''Results'' prs;
          prs = set_placeholder_text slide
                  ''Significant connectivity differences in DMN (p<0.01)'' prs;
          (prs, p) = add_paragraph slide prs;
          prs = set_paragraph_text slide p ''Correlation with cognitive scores: r=0.45'' prs;
          (prs, p) = add_paragraph slide prs;
          prs = set_paragraph_text slide p ''No significant age effects observed'' prs;
          prs = set_notes_text slide ''Key finding: DMN connectivity is altered'' prs;

          (prs, slide) = add_slide 1 prs;
          prs = set_title_text slide ''Limitations'' prs;
          prs = set_placeholder_text slide
                  ''Cross-sectional design limits causal inference'' prs;
          (prs, p) = add_paragraph slide prs;
          prs = set_paragraph_text slide p
                  ''Sample size may be insufficient for subgroup analyses'' prs;
          (prs, p) = add_paragraph slide prs;
          prs = set_paragraph_text slide p ''Single-site study limits generalizability'' prs;
          prs = set_notes_text slide ''Be honest about limitations - reviewers will ask'' prs
      in prs)"

text \<open>\<^verbatim>\<open>create_new\<close>, whole: build the deck, save it (line 141), report (line 142).\<close>

definition create_new :: "world \<Rightarrow> outcome" where
  "create_new w =
     (case save create_new_prs ''test_new.pptx'' w of
        Inl x \<Rightarrow> Inl x
      | Inr w1 \<Rightarrow>
          Inr (print (''Created test_new.pptx (4 slides: modified slide 2, changed notes on ''
                      @ ''slide 1, deleted Discussion, added Limitations)'') w1))"

text \<open>The script run as a program (lines 145 to 150): the old deck, then the new deck,
  then three lines of advice.\<close>

definition main :: "world \<Rightarrow> outcome" where
  "main w =
     (case create_old w of
        Inl x \<Rightarrow> Inl x
      | Inr w1 \<Rightarrow>
          (case create_new w1 of
             Inl x \<Rightarrow> Inl x
           | Inr w2 \<Rightarrow>
               Inr (print (''  dotnet run --project ../PptxReview.csproj -- --textconv ''
                           @ ''test_new.pptx'')
                     (print (''  dotnet run --project ../PptxReview.csproj -- --diff ''
                             @ ''test_old.pptx test_new.pptx'')
                       (print (CHR 0x0A # ''Done! Now run:'') w2)))))"

text \<open>A world with no file, no refused path and nothing written or printed yet.\<close>

definition fresh :: world where
  "fresh = \<lparr>files = Map.empty, readonly = {}, saved = [], stdout = []\<rparr>"

section \<open>The two decks, computed\<close>

text \<open>
  The deck operations on a deck whose three fields are written out. Used as rewrite rules
  they apply to an operation only once the deck it works on has been computed, so the
  script is evaluated in the order in which it runs.
\<close>

lemma add_slide_rec:
  "add_slide k \<lparr>core_title = t, core_author = a, slides = ss\<rparr> =
     (\<lparr>core_title = t, core_author = a,
       slides = ss @ [\<lparr>layout = k, title = [], body = [], notes_text = None\<rparr>]\<rparr>, length ss)"
  by (simp add: add_slide_def)

lemma update_slide_rec:
  "update_slide i f \<lparr>core_title = t, core_author = a, slides = ss\<rparr> =
     (if i < length ss then \<lparr>core_title = t, core_author = a, slides = ss[i := f (ss ! i)]\<rparr>
      else \<lparr>core_title = t, core_author = a, slides = ss\<rparr>)"
  by (simp add: update_slide_def)

lemma add_paragraph_rec:
  "add_paragraph i \<lparr>core_title = t, core_author = a, slides = ss\<rparr> =
     (update_slide i (\<lambda>sl. sl\<lparr>body := body sl @ [[]]\<rparr>) \<lparr>core_title = t, core_author = a, slides = ss\<rparr>,
      if i < length ss then length (body (ss ! i)) else 0)"
  by (simp add: add_paragraph_def)

text \<open>
  \<^verbatim>\<open>create_old\<close> and \<^verbatim>\<open>create_new\<close> carry out the same sequence of operations and differ
  in the texts alone. Whatever the texts are, the sequence yields four slides: a title
  slide with a one-paragraph subtitle, and three content slides of three paragraphs each,
  every one of them with notes.
\<close>

lemma deck_of_script:
  "(let prs = Presentation;
        prs = prs\<lparr>core_title := mt\<rparr>;
        prs = prs\<lparr>core_author := ma\<rparr>;
        (prs, slide) = add_slide 0 prs;
        prs = set_title_text slide t1 prs;
        prs = set_placeholder_text slide a1 prs;
        prs = set_notes_text slide n1 prs;
        (prs, slide) = add_slide 1 prs;
        prs = set_title_text slide t2 prs;
        prs = set_placeholder_text slide a2 prs;
        (prs, p) = add_paragraph slide prs;
        prs = set_paragraph_text slide p b2 prs;
        (prs, p) = add_paragraph slide prs;
        prs = set_paragraph_text slide p c2 prs;
        prs = set_notes_text slide n2 prs;
        (prs, slide) = add_slide 1 prs;
        prs = set_title_text slide t3 prs;
        prs = set_placeholder_text slide a3 prs;
        (prs, p) = add_paragraph slide prs;
        prs = set_paragraph_text slide p b3 prs;
        (prs, p) = add_paragraph slide prs;
        prs = set_paragraph_text slide p c3 prs;
        prs = set_notes_text slide n3 prs;
        (prs, slide) = add_slide 1 prs;
        prs = set_title_text slide t4 prs;
        prs = set_placeholder_text slide a4 prs;
        (prs, p) = add_paragraph slide prs;
        prs = set_paragraph_text slide p b4 prs;
        (prs, p) = add_paragraph slide prs;
        prs = set_paragraph_text slide p c4 prs;
        prs = set_notes_text slide n4 prs
    in prs) =
   \<lparr>core_title = mt, core_author = ma,
    slides =
      [\<lparr>layout = 0, title = t1, body = [a1], notes_text = Some n1\<rparr>,
       \<lparr>layout = 1, title = t2, body = [a2, b2, c2], notes_text = Some n2\<rparr>,
       \<lparr>layout = 1, title = t3, body = [a3, b3, c3], notes_text = Some n3\<rparr>,
       \<lparr>layout = 1, title = t4, body = [a4, b4, c4], notes_text = Some n4\<rparr>]\<rparr>"
  by (simp add: Let_def Presentation_def add_slide_rec update_slide_rec
      set_title_text_def set_placeholder_text_def add_paragraph_rec set_paragraph_text_def
      set_notes_text_def)

lemma create_old_prs_eval:
  "create_old_prs =
     \<lparr>core_title = ''Research Study'', core_author = ''Dr. Smith'',
      slides =
        [\<lparr>layout = 0, title = ''Neuroimaging Study of Brain Connectivity'',
          body = [''Dr. Smith, Department of Neuroscience''],
          notes_text = Some ''Welcome everyone. Today I'll present our findings on brain connectivity.''\<rparr>,
         \<lparr>layout = 1, title = ''Methods'',
          body = [''Participants: 50 healthy adults (25M/25F)'',
                  ''MRI Protocol: 3T Siemens scanner'',
                  ''Analysis: FSL and FreeSurfer pipelines''],
          notes_text = Some ''Methods slide - explain recruitment criteria''\<rparr>,
         \<lparr>layout = 1, title = ''Results'',
          body = [''Significant connectivity differences in DMN (p<0.01)'',
                  ''Correlation with cognitive scores: r=0.45'',
                  ''No significant age effects observed''],
          notes_text = Some ''Key finding: DMN connectivity is altered''\<rparr>,
         \<lparr>layout = 1, title = ''Discussion'',
          body = [''Findings consistent with prior literature'',
                  ''Novel contribution: whole-brain analysis approach'',
                  ''Clinical implications for early diagnosis''],
          notes_text = Some ''Discuss limitations and future directions''\<rparr>]\<rparr>"
  unfolding create_old_prs_def by (rule deck_of_script)

lemma create_new_prs_eval:
  "create_new_prs =
     \<lparr>core_title = ''Research Study - Revised'', core_author = ''Dr. Smith'',
      slides =
        [\<lparr>layout = 0, title = ''Neuroimaging Study of Brain Connectivity'',
          body = [''Dr. Smith, Department of Neuroscience''],
          notes_text = Some ''Welcome. Today I'll present our UPDATED findings on brain connectivity patterns.''\<rparr>,
         \<lparr>layout = 1, title = ''Methods'',
          body = [''Participants: 75 healthy adults (38M/37F)'',
                  ''MRI Protocol: 3T Siemens Prisma scanner'',
                  ''Analysis: FSL, FreeSurfer, and CONN toolbox''],
          notes_text = Some ''Methods slide - explain recruitment criteria''\<rparr>,
         \<lparr>layout = 1, title = ''Results'',
          body = [''Significant connectivity differences in DMN (p<0.01)'',
                  ''Correlation with cognitive scores: r=0.45'',
                  ''No significant age effects observed''],
          notes_text = Some ''Key finding: DMN connectivity is altered''\<rparr>,
         \<lparr>layout = 1, title = ''Limitations'',
          body = [''Cross-sectional design limits causal inference'',
                  ''Sample size may be insufficient for subgroup analyses'',
                  ''Single-site study limits generalizability''],
          notes_text = Some ''Be honest about limitations - reviewers will ask''\<rparr>]\<rparr>"
  unfolding create_new_prs_def by (rule deck_of_script)

section \<open>What a run does to the world\<close>

text \<open>
  A run returns exactly when neither output path refuses the write, and then the world
  has changed in three places: the two decks are stored under their paths, the two paths
  are appended to the log of writes, and five lines are printed.
\<close>

lemma main_returns:
  "main w = Inr w' \<longleftrightarrow>
     ''test_old.pptx'' \<notin> readonly w \<and> ''test_new.pptx'' \<notin> readonly w \<and>
     w' = w\<lparr>files := (files w)(''test_old.pptx'' \<mapsto> create_old_prs,
                              ''test_new.pptx'' \<mapsto> create_new_prs),
            saved := saved w @ [''test_old.pptx'', ''test_new.pptx''],
            stdout := stdout w @
              [''Created test_old.pptx (4 slides)'',
               ''Created test_new.pptx (4 slides: modified slide 2, changed notes on ''
                 @ ''slide 1, deleted Discussion, added Limitations)'',
               CHR 0x0A # ''Done! Now run:'',
               ''  dotnet run --project ../PptxReview.csproj -- --diff ''
                 @ ''test_old.pptx test_new.pptx'',
               ''  dotnet run --project ../PptxReview.csproj -- --textconv ''
                 @ ''test_new.pptx'']\<rparr>"
  by (auto simp add: main_def create_old_def create_new_def save_def print_def)

text \<open>
  Whether it returns or raises, a run appends to the log of writes a prefix of the two
  paths: a refused write ends the run, and nothing is written after it.
\<close>

lemma main_final:
  "saved (final (main w)) = saved w @
     (if ''test_old.pptx'' \<in> readonly w then []
      else if ''test_new.pptx'' \<in> readonly w then [''test_old.pptx'']
      else [''test_old.pptx'', ''test_new.pptx''])"
  by (simp add: main_def create_old_def create_new_def save_def print_def final_def)

text \<open>
  From the fresh world the run returns, and run again in the world it leaves, it returns
  again.
\<close>

lemma main_fresh: "main fresh = Inr (final (main fresh))"
  by (simp add: main_def create_old_def create_new_def save_def print_def final_def fresh_def)

lemma main_again: "main (final (main fresh)) = Inr (final (main (final (main fresh))))"
  by (simp add: main_def create_old_def create_new_def save_def print_def final_def fresh_def)

section \<open>The change ledger\<close>

text \<open>
  Slides are counted from 1 in the prose and from 0 in \<open>slides d ! i\<close>: slide 4 is
  \<open>slides d ! 3\<close>.
\<close>

text \<open>
  \<^bold>\<open>C1.\<close> The old deck has exactly 4 slides and so has the new deck. The slide titled
  "Discussion" is slide 4 of the old deck; no slide of the new deck has that title, and the
  old slide 4 is no slide of the new deck. The slide titled "Limitations" is slide 4 of
  the new deck, in the place of the removed slide; no slide of the old deck has that title,
  and the new slide 4 is no slide of the old deck.
\<close>

theorem discussion_replaced_by_limitations:
  "length (slides create_old_prs) = 4 \<and> length (slides create_new_prs) = 4 \<and>
   title (slides create_old_prs ! 3) = ''Discussion'' \<and>
   ''Discussion'' \<notin> set (map title (slides create_new_prs)) \<and>
   slides create_old_prs ! 3 \<notin> set (slides create_new_prs) \<and>
   title (slides create_new_prs ! 3) = ''Limitations'' \<and>
   ''Limitations'' \<notin> set (map title (slides create_old_prs)) \<and>
   slides create_new_prs ! 3 \<notin> set (slides create_old_prs)"
  by (simp add: create_old_prs_eval create_new_prs_eval)

text \<open>
  \<^bold>\<open>C2.\<close> The Results slide is slide 3 of both decks and is equal field for field across
  them: title, sequence of body paragraphs and notes (and so the whole slide).
\<close>

theorem results_slide_unchanged:
  "title (slides create_old_prs ! 2) = ''Results'' \<and>
   title (slides create_new_prs ! 2) = title (slides create_old_prs ! 2) \<and>
   body (slides create_new_prs ! 2) = body (slides create_old_prs ! 2) \<and>
   notes_text (slides create_new_prs ! 2) = notes_text (slides create_old_prs ! 2) \<and>
   slides create_new_prs ! 2 = slides create_old_prs ! 2"
  by (simp add: create_old_prs_eval create_new_prs_eval)

text \<open>
  \<^bold>\<open>C3.\<close> Slide 2 is the Methods slide in both decks. Its first body paragraph is
  "Participants: 50 healthy adults (25M/25F)" in the old deck and
  "Participants: 75 healthy adults (38M/37F)" in the new deck; the second and the third
  paragraph are edited as well (the scanner gains "Prisma", the analysis gains the CONN
  toolbox).
\<close>

theorem methods_body_edited:
  "title (slides create_old_prs ! 1) = ''Methods'' \<and>
   title (slides create_new_prs ! 1) = ''Methods'' \<and>
   body (slides create_old_prs ! 1) =
     [''Participants: 50 healthy adults (25M/25F)'',
      ''MRI Protocol: 3T Siemens scanner'',
      ''Analysis: FSL and FreeSurfer pipelines''] \<and>
   body (slides create_new_prs ! 1) =
     [''Participants: 75 healthy adults (38M/37F)'',
      ''MRI Protocol: 3T Siemens Prisma scanner'',
      ''Analysis: FSL, FreeSurfer, and CONN toolbox''] \<and>
   body (slides create_old_prs ! 1) ! 0 = ''Participants: 50 healthy adults (25M/25F)'' \<and>
   body (slides create_new_prs ! 1) ! 0 = ''Participants: 75 healthy adults (38M/37F)'' \<and>
   body (slides create_old_prs ! 1) ! 1 \<noteq> body (slides create_new_prs ! 1) ! 1 \<and>
   body (slides create_old_prs ! 1) ! 2 \<noteq> body (slides create_new_prs ! 1) ! 2"
  by (simp add: create_old_prs_eval create_new_prs_eval)

text \<open>
  \<^bold>\<open>C4.\<close> The metadata title of the old deck is "Research Study", that of the new deck
  is "Research Study - Revised", and the author is the same in both: of the two metadata
  fields, the title alone differs.
\<close>

theorem metadata_title_only:
  "core_title create_old_prs = ''Research Study'' \<and>
   core_title create_new_prs = ''Research Study - Revised'' \<and>
   core_title create_old_prs \<noteq> core_title create_new_prs \<and>
   core_author create_old_prs = core_author create_new_prs"
  by (simp add: create_old_prs_eval create_new_prs_eval)

text \<open>
  \<^bold>\<open>C5.\<close> On slide 1, the title slide, the title text, the subtitle placeholder and the
  layout are equal across the two decks and the notes differ: the new slide 1 is the old
  slide 1 with other notes.
\<close>

theorem title_slide_notes_only:
  "title (slides create_new_prs ! 0) = title (slides create_old_prs ! 0) \<and>
   body (slides create_new_prs ! 0) = body (slides create_old_prs ! 0) \<and>
   layout (slides create_new_prs ! 0) = layout (slides create_old_prs ! 0) \<and>
   notes_text (slides create_new_prs ! 0) \<noteq> notes_text (slides create_old_prs ! 0) \<and>
   slides create_new_prs ! 0 =
     (slides create_old_prs ! 0)\<lparr>notes_text := notes_text (slides create_new_prs ! 0)\<rparr>"
  by (simp add: create_old_prs_eval create_new_prs_eval)

text \<open>
  \<^bold>\<open>C6.\<close> The content of the two decks a run produces does not depend on the world the
  run starts in: any two runs that return leave the same deck under the old path and the
  same deck under the new path, the metadata, the order of the slides and each slide's
  title, paragraphs and notes included. In particular a second run, started in the world
  the first one left, stores the same two decks again.
\<close>

theorem decks_reproducible:
  assumes "main w1 = Inr w1'" and "main w2 = Inr w2'"
  shows "files w1' ''test_old.pptx'' = files w2' ''test_old.pptx'' \<and>
         files w1' ''test_new.pptx'' = files w2' ''test_new.pptx'' \<and>
         files w1' ''test_old.pptx'' = Some create_old_prs \<and>
         files w1' ''test_new.pptx'' = Some create_new_prs"
  using assms by (simp add: main_returns)

text \<open>
  The fresh world and the world its run leaves: two runs in succession.
\<close>

theorem decks_reproducible_witness:
  "main fresh = Inr (final (main fresh)) \<and>
   main (final (main fresh)) = Inr (final (main (final (main fresh)))) \<and>
   files (final (main fresh)) ''test_old.pptx'' =
     files (final (main (final (main fresh)))) ''test_old.pptx'' \<and>
   files (final (main fresh)) ''test_new.pptx'' =
     files (final (main (final (main fresh)))) ''test_new.pptx'' \<and>
   files (final (main fresh)) ''test_old.pptx'' = Some create_old_prs \<and>
   files (final (main fresh)) ''test_new.pptx'' = Some create_new_prs"
  using decks_reproducible [OF main_fresh main_again] main_fresh main_again by blast

text \<open>
  \<^bold>\<open>C7.\<close> Every slide of the old deck and every slide of the new deck, four in each, has
  a non-empty title.
\<close>

theorem titles_nonempty:
  "length (slides create_old_prs) = 4 \<and> length (slides create_new_prs) = 4 \<and>
   list_all (\<lambda>sl. title sl \<noteq> []) (slides create_old_prs) \<and>
   list_all (\<lambda>sl. title sl \<noteq> []) (slides create_new_prs)"
  by (simp add: create_old_prs_eval create_new_prs_eval)

text \<open>
  \<^bold>\<open>C8.\<close> A run that returns has written the old path once and the new path once, in
  this order, and nothing else: the log of writes grows by these two distinct paths, and
  what is stored under any other path is what was stored there before.
\<close>

theorem each_path_written_once:
  assumes "main w = Inr w'"
  shows "saved w' = saved w @ [''test_old.pptx'', ''test_new.pptx''] \<and>
         ''test_old.pptx'' \<noteq> ''test_new.pptx'' \<and>
         (\<forall>p. p \<noteq> ''test_old.pptx'' \<and> p \<noteq> ''test_new.pptx'' \<longrightarrow> files w' p = files w p)"
  using assms by (simp add: main_returns)

text \<open>
  In the fresh world the run writes the two paths and leaves a third path alone.
\<close>

theorem each_path_written_once_witness:
  "main fresh = Inr (final (main fresh)) \<and>
   saved fresh = [] \<and>
   saved (final (main fresh)) = [''test_old.pptx'', ''test_new.pptx''] \<and>
   files (final (main fresh)) ''notes.txt'' = files fresh ''notes.txt''"
  using each_path_written_once [OF main_fresh] main_fresh by (simp add: fresh_def)

text \<open>
  \<^bold>\<open>C9.\<close> On slide 2, the Methods slide, the title and the notes are equal across the
  two decks, the notes being "Methods slide - explain recruitment criteria" in both, and
  so is the layout; the body paragraphs differ.
\<close>

theorem methods_title_notes_kept:
  "title (slides create_new_prs ! 1) = title (slides create_old_prs ! 1) \<and>
   notes_text (slides create_old_prs ! 1) = Some ''Methods slide - explain recruitment criteria'' \<and>
   notes_text (slides create_new_prs ! 1) = Some ''Methods slide - explain recruitment criteria'' \<and>
   layout (slides create_new_prs ! 1) = layout (slides create_old_prs ! 1) \<and>
   body (slides create_new_prs ! 1) \<noteq> body (slides create_old_prs ! 1)"
  by (simp add: create_old_prs_eval create_new_prs_eval)

text \<open>
  \<^bold>\<open>C10.\<close> Every slide of the old deck and every slide of the new deck, four in each,
  has notes, and the notes are a non-empty text.
\<close>

theorem notes_always_set:
  "length (slides create_old_prs) = 4 \<and> length (slides create_new_prs) = 4 \<and>
   list_all (\<lambda>sl. case notes_text sl of None \<Rightarrow> False | Some n \<Rightarrow> n \<noteq> [])
     (slides create_old_prs) \<and>
   list_all (\<lambda>sl. case notes_text sl of None \<Rightarrow> False | Some n \<Rightarrow> n \<noteq> [])
     (slides create_new_prs)"
  by (simp add: create_old_prs_eval create_new_prs_eval)

end
